theory Spec2Isabelle
  imports Complex_Main
begin

section \<open>PostgreSQL range values: the \<open>Range\<close> dataclass of \<open>dialects/postgresql/ranges.py\<close>\<close>

subsection \<open>Scalars\<close>

text \<open>
  The bounds of a range are Python objects. Two kinds of scalar are modelled, the two
  that \<open>_get_discrete_step\<close> tells apart for numbers: Python's unbounded \<open>int\<close>
  (a discrete domain) and \<open>Decimal\<close> (a continuous domain, here an exact rational).
  Python compares an \<open>int\<close> with a \<open>Decimal\<close> by numeric value, and so does the model.
  Dates and timestamps are not modelled.
\<close>

datatype scalar = PyInt int | PyDec rat

fun num :: "scalar \<Rightarrow> rat" where
  "num (PyInt n) = of_int n"
| "num (PyDec q) = q"

definition py_lt :: "scalar \<Rightarrow> scalar \<Rightarrow> bool" where
  "py_lt a b = (num a < num b)"

definition py_le :: "scalar \<Rightarrow> scalar \<Rightarrow> bool" where
  "py_le a b = (num a \<le> num b)"

definition py_gt :: "scalar \<Rightarrow> scalar \<Rightarrow> bool" where
  "py_gt a b = (num a > num b)"

definition py_ge :: "scalar \<Rightarrow> scalar \<Rightarrow> bool" where
  "py_ge a b = (num a \<ge> num b)"

definition py_eq :: "scalar \<Rightarrow> scalar \<Rightarrow> bool" where
  "py_eq a b = (num a = num b)"

text \<open>
  \<open>value + step\<close> and \<open>value - step\<close> for an integer step. On a \<open>Decimal\<close> the model
  adds exactly, while Python rounds the sum to the precision of the decimal context
  (28 significant digits by default): the two agree where the exact sum has no more
  digits than that. The source adds a step to a \<open>Decimal\<close> only when \<open>self\<close> has an
  \<open>int\<close> bound and the edge compared is a \<open>Decimal\<close>, that is for ranges over
  different domains.
\<close>

fun py_add :: "scalar \<Rightarrow> int \<Rightarrow> scalar" where
  "py_add (PyInt n) k = PyInt (n + k)"
| "py_add (PyDec q) k = PyDec (q + of_int k)"

fun py_sub :: "scalar \<Rightarrow> int \<Rightarrow> scalar" where
  "py_sub (PyInt n) k = PyInt (n - k)"
| "py_sub (PyDec q) k = PyDec (q - of_int k)"

text \<open>\<open>isinstance(x, int)\<close> for a bound that may be \<open>None\<close>.\<close>

fun isinstance_int :: "scalar option \<Rightarrow> bool" where
  "isinstance_int None = False"
| "isinstance_int (Some (PyInt n)) = True"
| "isinstance_int (Some (PyDec q)) = False"

subsection \<open>The dataclass\<close>

text \<open>
  \<open>bounds\<close> is a string of two characters, one of \<open>()\<close>, \<open>[)\<close>, \<open>(]\<close>, \<open>[]\<close>; it is
  modelled as the pair of its characters, so that \<open>bounds[0]\<close> is \<open>fst\<close> and
  \<open>bounds[1]\<close> is \<open>snd\<close>, and \<open>b0 + b1\<close> is the pair \<open>(b0, b1)\<close>.
  The field \<open>empty\<close> is \<open>empty_flag\<close>, the constructor call
  \<open>Range(l, u, bounds=b, empty=e)\<close> is \<open>Range_mk l u b e\<close> and the method \<open>union\<close> is
  \<open>union_range\<close>, since HOL has constants of these names.
\<close>

record range =
  lower :: "scalar option"
  upper :: "scalar option"
  bounds :: "char \<times> char"
  empty_flag :: bool

definition Range_mk :: "scalar option \<Rightarrow> scalar option \<Rightarrow> char \<times> char \<Rightarrow> bool \<Rightarrow> range" where
  "Range_mk l u b e = \<lparr>lower = l, upper = u, bounds = b, empty_flag = e\<rparr>"

definition valid_bounds :: "range \<Rightarrow> bool" where
  "valid_bounds r =
     (bounds r = (CHR ''('', CHR '')'') \<or> bounds r = (CHR ''['', CHR '')'') \<or>
      bounds r = (CHR ''('', CHR '']'') \<or> bounds r = (CHR ''['', CHR '']''))"

datatype error = ValueError | AssertionError | TypeError

subsection \<open>\<open>_contains_value\<close>\<close>

definition contains_value :: "range \<Rightarrow> scalar \<Rightarrow> bool" where
  "contains_value self v =
     (if empty_flag self then False
      else case lower self of
        None \<Rightarrow>
          (case upper self of
             None \<Rightarrow> True
           | Some u \<Rightarrow> (if snd (bounds self) = CHR '')'' then py_lt v u else py_le v u))
      | Some l \<Rightarrow>
          (case upper self of
             None \<Rightarrow> (if fst (bounds self) = CHR ''('' then py_gt v l else py_ge v l)
           | Some u \<Rightarrow>
               (if fst (bounds self) = CHR ''('' then py_gt v l else py_ge v l) \<and>
               (if snd (bounds self) = CHR '')'' then py_lt v u else py_le v u)))"

subsection \<open>\<open>_get_discrete_step\<close> and \<open>_compare_edges\<close>\<close>

definition get_discrete_step :: "range \<Rightarrow> int option" where
  "get_discrete_step self =
     (if isinstance_int (lower self) \<or> isinstance_int (upper self) then Some 1 else None)"

definition is_lower_bound :: "char \<Rightarrow> bool" where
  "is_lower_bound b = (b = CHR ''['' \<or> b = CHR ''('')"

definition is_inclusive :: "char \<Rightarrow> bool" where
  "is_inclusive b = (b = CHR ''['' \<or> b = CHR '']'')"

text \<open>
  The normalisation of one edge to the \<open>[)\<close> form when the range is discrete: the block
  that \<open>_compare_edges\<close> runs once for \<open>value1\<close> and once for \<open>value2\<close>. It returns
  the edge's value and inclusivity flag after the block.
\<close>

definition normalize_edge :: "int option \<Rightarrow> bool \<Rightarrow> scalar \<Rightarrow> bool \<Rightarrow> scalar \<times> bool" where
  "normalize_edge step value_is_lower_bound v value_inc =
     (case step of
        None \<Rightarrow> (v, value_inc)
      | Some s \<Rightarrow>
          (if value_is_lower_bound
           then (if \<not> value_inc then (py_add v s, True) else (v, value_inc))
           else (if value_inc then (py_add v s, False) else (v, value_inc))))"

definition compare_edges ::
  "range \<Rightarrow> scalar option \<Rightarrow> char \<Rightarrow> scalar option \<Rightarrow> char \<Rightarrow> bool \<Rightarrow> int" where
  "compare_edges self value1 bound1 value2 bound2 only_values =
     (let value1_is_lower_bound = is_lower_bound bound1;
          value2_is_lower_bound = is_lower_bound bound2
      in case value1 of
        None \<Rightarrow>
          (case value2 of
             None \<Rightarrow>
               (if value1_is_lower_bound = value2_is_lower_bound then 0
                else if value1_is_lower_bound then - 1 else 1)
           | Some v2 \<Rightarrow> (if value1_is_lower_bound then - 1 else 1))
      | Some v1 \<Rightarrow>
          (case value2 of
             None \<Rightarrow> (if value2_is_lower_bound then 1 else - 1)
           | Some v2 \<Rightarrow>
               (if bound1 = bound2 \<and> py_eq v1 v2 then 0
                else
                  let step = get_discrete_step self;
                      e1 = normalize_edge step value1_is_lower_bound v1 (is_inclusive bound1);
                      e2 = normalize_edge step value2_is_lower_bound v2 (is_inclusive bound2);
                      value1_inc = snd e1;
                      value2_inc = snd e2
                  in if py_lt (fst e1) (fst e2) then - 1
                     else if py_gt (fst e1) (fst e2) then 1
                     else if only_values then 0
                     else if value1_inc \<and> value2_inc then 0
                     else if \<not> value1_inc \<and> \<not> value2_inc then
                       (if value1_is_lower_bound = value2_is_lower_bound then 0
                        else if value1_is_lower_bound then 1 else - 1)
                     else if \<not> value1_inc then (if value1_is_lower_bound then 1 else - 1)
                     else if \<not> value2_inc then (if value2_is_lower_bound then - 1 else 1)
                     else 0)))"

subsection \<open>The predicates\<close>

definition contained_by :: "range \<Rightarrow> range \<Rightarrow> bool" where
  "contained_by self other =
     (if empty_flag self then True
      else if empty_flag other then False
      else if compare_edges self (lower self) (fst (bounds self))
                (lower other) (fst (bounds other)) False < 0 then False
      else if compare_edges self (upper self) (snd (bounds self))
                (upper other) (snd (bounds other)) False > 0 then False
      else True)"

text \<open>The argument of \<open>contains\<close> is a scalar or a range (\<open>isinstance(value, Range)\<close>).\<close>

datatype contains_arg = Value scalar | SubRange range

fun contains :: "range \<Rightarrow> contains_arg \<Rightarrow> bool" where
  "contains self (SubRange r) = contained_by r self"
| "contains self (Value v) = contains_value self v"

definition overlaps :: "range \<Rightarrow> range \<Rightarrow> bool" where
  "overlaps self other =
     (if empty_flag self \<or> empty_flag other then False
      else
        let slower = lower self; slower_b = fst (bounds self);
            supper = upper self; supper_b = snd (bounds self);
            olower = lower other; olower_b = fst (bounds other);
            oupper = upper other; oupper_b = snd (bounds other)
        in if compare_edges self slower slower_b olower olower_b False \<ge> 0
              \<and> compare_edges self slower slower_b oupper oupper_b False \<le> 0 then True
           else if compare_edges self olower olower_b slower slower_b False \<ge> 0
              \<and> compare_edges self olower olower_b supper supper_b False \<le> 0 then True
           else False)"

text \<open>
  \<open>_upper_edge_adjacent_to_lower\<close>. In the branch \<open>res == -1\<close> the source computes
  \<open>value2 - step\<close>; on \<open>None\<close> that raises \<open>TypeError\<close>, while \<open>value1 == value2\<close> on
  \<open>None\<close> is an ordinary comparison.
\<close>

definition opt_eq :: "scalar option \<Rightarrow> scalar option \<Rightarrow> bool" where
  "opt_eq x y =
     (case x of
        None \<Rightarrow> (case y of None \<Rightarrow> True | Some b \<Rightarrow> False)
      | Some a \<Rightarrow> (case y of None \<Rightarrow> False | Some b \<Rightarrow> py_eq a b))"

definition eq_minus_step :: "scalar option \<Rightarrow> scalar option \<Rightarrow> int \<Rightarrow> error + bool" where
  "eq_minus_step value1 value2 step =
     (case value2 of
        None \<Rightarrow> Inl TypeError
      | Some v2 \<Rightarrow> Inr (opt_eq value1 (Some (py_sub v2 step))))"

definition upper_edge_adjacent_to_lower ::
  "range \<Rightarrow> scalar option \<Rightarrow> char \<Rightarrow> scalar option \<Rightarrow> char \<Rightarrow> error + bool" where
  "upper_edge_adjacent_to_lower self value1 bound1 value2 bound2 =
     (let res = compare_edges self value1 bound1 value2 bound2 True
      in if res = - 1 then
           (case get_discrete_step self of
              None \<Rightarrow> Inr False
            | Some step \<Rightarrow>
                (if bound1 = CHR '']'' then
                   (if bound2 = CHR ''['' then eq_minus_step value1 value2 step
                    else Inr (opt_eq value1 value2))
                 else
                   (if bound2 = CHR ''['' then Inr (opt_eq value1 value2)
                    else eq_minus_step value1 value2 step)))
         else if res = 0 then
           Inr (bound1 = CHR '')'' \<and> bound2 = CHR ''['' \<or> bound1 = CHR '']'' \<and> bound2 = CHR ''('')
         else Inr False)"

definition adjacent_to :: "range \<Rightarrow> range \<Rightarrow> error + bool" where
  "adjacent_to self other =
     (if empty_flag self \<or> empty_flag other then Inr False
      else
        let slower = lower self; slower_b = fst (bounds self);
            supper = upper self; supper_b = snd (bounds self);
            olower = lower other; olower_b = fst (bounds other);
            oupper = upper other; oupper_b = snd (bounds other)
        in case upper_edge_adjacent_to_lower self supper supper_b olower olower_b of
             Inl e \<Rightarrow> Inl e
           | Inr True \<Rightarrow> Inr True
           | Inr False \<Rightarrow> upper_edge_adjacent_to_lower self oupper oupper_b slower slower_b)"

subsection \<open>\<open>union\<close> and \<open>difference\<close>\<close>

definition union_range :: "range \<Rightarrow> range \<Rightarrow> error + range" where
  "union_range self other =
     (if empty_flag self then Inr other
      else if empty_flag other then Inr self
      else
        case (if overlaps self other then Inr True else adjacent_to self other) of
          Inl e \<Rightarrow> Inl e
        | Inr False \<Rightarrow> Inl ValueError
        | Inr True \<Rightarrow>
            (let slower = lower self; slower_b = fst (bounds self);
                 supper = upper self; supper_b = snd (bounds self);
                 olower = lower other; olower_b = fst (bounds other);
                 oupper = upper other; oupper_b = snd (bounds other);
                 rl = (if compare_edges self slower slower_b olower olower_b False < 0
                       then (slower, slower_b) else (olower, olower_b));
                 ru = (if compare_edges self supper supper_b oupper oupper_b False > 0
                       then (supper, supper_b) else (oupper, oupper_b))
             in Inr (Range_mk (fst rl) (fst ru) (snd rl, snd ru) False)))"

text \<open>\<open>Range(None, None, empty=True)\<close>, with the default bounds \<open>[)\<close>.\<close>

definition empty_range :: range where
  "empty_range = Range_mk None None (CHR ''['', CHR '')'') True"

definition difference :: "range \<Rightarrow> range \<Rightarrow> error + range" where
  "difference self other =
     (if empty_flag self \<or> empty_flag other then Inr self
      else
        let slower = lower self; slower_b = fst (bounds self);
            supper = upper self; supper_b = snd (bounds self);
            olower = lower other; olower_b = fst (bounds other);
            oupper = upper other; oupper_b = snd (bounds other);
            sl_vs_ol = compare_edges self slower slower_b olower olower_b False;
            su_vs_ou = compare_edges self supper supper_b oupper oupper_b False
        in if sl_vs_ol < 0 \<and> su_vs_ou > 0 then Inl ValueError
           else
             let sl_vs_ou = compare_edges self slower slower_b oupper oupper_b False;
                 su_vs_ol = compare_edges self supper supper_b olower olower_b False
             in if sl_vs_ou > 0 \<or> su_vs_ol < 0 then Inr self
                else if sl_vs_ol \<ge> 0 \<and> su_vs_ou \<le> 0 then Inr empty_range
                else if sl_vs_ol \<le> 0 \<and> su_vs_ol \<ge> 0 \<and> su_vs_ou \<le> 0 then
                  (let rupper_b = (if olower_b = CHR ''['' then CHR '')'' else CHR '']'')
                   in if compare_edges self slower slower_b olower rupper_b False = 0
                      then Inr empty_range
                      else Inr (Range_mk slower olower (slower_b, rupper_b) False))
                else if sl_vs_ol \<ge> 0 \<and> su_vs_ou \<ge> 0 \<and> sl_vs_ou \<le> 0 then
                  (let rlower_b = (if oupper_b = CHR '']'' then CHR ''('' else CHR ''('')
                   in if compare_edges self oupper rlower_b supper supper_b False = 0
                      then Inr empty_range
                      else Inr (Range_mk oupper supper (rlower_b, supper_b) False))
                else Inl AssertionError)"

subsection \<open>Equality and \<open>_stringify\<close>\<close>

text \<open>
  The dataclass compares by value: two ranges are \<open>==\<close> when their four fields are.
\<close>

definition range_eq :: "range \<Rightarrow> range \<Rightarrow> bool" where
  "range_eq a b =
     (opt_eq (lower a) (lower b) \<and> opt_eq (upper a) (upper b) \<and>
      bounds a = bounds b \<and> empty_flag a = empty_flag b)"

text \<open>An operation returned a range that is \<open>==\<close> to \<open>r\<close>.\<close>

definition returns_eq :: "error + range \<Rightarrow> range \<Rightarrow> bool" where
  "returns_eq res r = (case res of Inl e \<Rightarrow> False | Inr c \<Rightarrow> range_eq c r)"

text \<open>
  \<open>str\<close> of a Python \<open>int\<close> is its decimal numeral. \<open>str\<close> of a \<open>Decimal\<close> depends on
  the digits the value was built from, which the rational does not keep, so the
  formatting of decimals is a parameter of the model.
\<close>

definition digit_char :: "nat \<Rightarrow> char" where
  "digit_char d = ''0123456789'' ! (d mod 10)"

fun str_nat :: "nat \<Rightarrow> string" where
  "str_nat n =
     (if n < 10 then [digit_char n]
      else str_nat (n div 10) @ [digit_char (n mod 10)])"

declare str_nat.simps [simp del]

definition str_int :: "int \<Rightarrow> string" where
  "str_int i = (if i < 0 then CHR ''-'' # str_nat (nat (- i)) else str_nat (nat i))"

fun py_str :: "(rat \<Rightarrow> string) \<Rightarrow> scalar \<Rightarrow> string" where
  "py_str fmt (PyInt n) = str_int n"
| "py_str fmt (PyDec q) = fmt q"

definition opt_str :: "(rat \<Rightarrow> string) \<Rightarrow> scalar option \<Rightarrow> string" where
  "opt_str fmt x = (case x of None \<Rightarrow> [] | Some v \<Rightarrow> py_str fmt v)"

definition stringify :: "(rat \<Rightarrow> string) \<Rightarrow> range \<Rightarrow> string" where
  "stringify fmt self =
     (if empty_flag self then ''empty''
      else
        let l = opt_str fmt (lower self);
            r = opt_str fmt (upper self);
            b0 = fst (bounds self);
            b1 = snd (bounds self)
        in [b0] @ l @ '','' @ r @ [b1])"

subsection \<open>Ranges over one scalar domain\<close>

text \<open>
  A \<open>Range[T]\<close> has both bounds in \<open>T\<close> (or \<open>None\<close>). Two ranges are over the same
  domain when the bounds of both are integers, or the bounds of both are decimals.
\<close>

fun int_bound :: "scalar option \<Rightarrow> bool" where
  "int_bound None = True"
| "int_bound (Some (PyInt n)) = True"
| "int_bound (Some (PyDec q)) = False"

fun dec_bound :: "scalar option \<Rightarrow> bool" where
  "dec_bound None = True"
| "dec_bound (Some (PyInt n)) = False"
| "dec_bound (Some (PyDec q)) = True"

definition int_range :: "range \<Rightarrow> bool" where
  "int_range r = (int_bound (lower r) \<and> int_bound (upper r))"

definition dec_range :: "range \<Rightarrow> bool" where
  "dec_range r = (dec_bound (lower r) \<and> dec_bound (upper r))"

definition same_domain :: "range \<Rightarrow> range \<Rightarrow> bool" where
  "same_domain a b = (int_range a \<and> int_range b \<or> dec_range a \<and> dec_range b)"

text \<open>\<open>v\<close> is one of the two bounds of \<open>r\<close>.\<close>

definition edge_of :: "range \<Rightarrow> scalar option \<Rightarrow> bool" where
  "edge_of r v = (v = lower r \<or> v = upper r)"

subsection \<open>The normalisation as the specification words it\<close>

text \<open>
  The specification says that on a discrete domain an exclusive lower edge and an
  inclusive upper edge are moved to \<open>value + step\<close> before the values are compared.
  \<open>spec_normalized\<close> is that sentence for integers (step 1), written from the
  specification and compared with \<open>compare_edges\<close> below.
\<close>

definition spec_normalized :: "int \<Rightarrow> char \<Rightarrow> int" where
  "spec_normalized v b = (if b = CHR ''('' \<or> b = CHR '']'' then v + 1 else v)"

section \<open>Properties of the edge comparison\<close>

lemma compare_edges_antisym:
  "compare_edges s v2 b2 v1 b1 False = - compare_edges s v1 b1 v2 b2 False"
  unfolding compare_edges_def normalize_edge_def Let_def py_lt_def py_gt_def py_eq_def
  by (auto split: option.splits)

lemma compare_edges_cong_step:
  "(v1 \<noteq> None \<Longrightarrow> v2 \<noteq> None \<Longrightarrow> get_discrete_step s = get_discrete_step t) \<Longrightarrow>
   compare_edges s v1 b1 v2 b2 ov = compare_edges t v1 b1 v2 b2 ov"
  unfolding compare_edges_def Let_def
  by (auto split: option.splits)

lemma compare_edges_refl: "compare_edges s v b v b ov = 0"
  unfolding compare_edges_def Let_def py_eq_def
  by (auto split: option.splits)

lemma compare_edges_upper_lower_None:
  "\<not> is_lower_bound b1 \<Longrightarrow> is_lower_bound b2 \<Longrightarrow> v1 = None \<or> v2 = None \<Longrightarrow>
   compare_edges s v1 b1 v2 b2 ov = 1"
  unfolding compare_edges_def Let_def
  by (auto split: option.splits)

lemma opt_eq_refl: "opt_eq x x"
  by (simp add: opt_eq_def py_eq_def split: option.splits)

lemma range_eq_refl: "range_eq r r"
  by (simp add: range_eq_def opt_eq_refl)

lemma contained_by_refl: "contained_by r r"
  by (simp add: contained_by_def compare_edges_refl)

text \<open>
  With an upper marker on the left and a lower marker on the right, as \<open>adjacent_to\<close>
  calls it for ranges with valid bounds, \<open>_upper_edge_adjacent_to_lower\<close> never
  subtracts from \<open>None\<close>.
\<close>

lemma upper_edge_adjacent_to_lower_total:
  assumes "\<not> is_lower_bound b1" and "is_lower_bound b2"
  shows "\<exists>r. upper_edge_adjacent_to_lower s v1 b1 v2 b2 = Inr r"
proof (cases "v1 = None \<or> v2 = None")
  case True
  then have "compare_edges s v1 b1 v2 b2 True = 1"
    using assms compare_edges_upper_lower_None by blast
  then show ?thesis by (auto simp: upper_edge_adjacent_to_lower_def)
next
  case False
  then show ?thesis
    by (auto simp: upper_edge_adjacent_to_lower_def eq_minus_step_def Let_def split: option.splits)
qed

lemma valid_bounds_markers:
  "valid_bounds r \<Longrightarrow> is_lower_bound (fst (bounds r)) \<and> \<not> is_lower_bound (snd (bounds r))"
  by (auto simp: valid_bounds_def is_lower_bound_def)


lemma py_int_simps:
  "py_lt (PyInt a) (PyInt b) = (a < b)"
  "py_gt (PyInt a) (PyInt b) = (b < a)"
  "py_le (PyInt a) (PyInt b) = (a \<le> b)"
  "py_ge (PyInt a) (PyInt b) = (b \<le> a)"
  "py_eq (PyInt a) (PyInt b) = (a = b)"
  by (simp_all add: py_lt_def py_gt_def py_le_def py_ge_def py_eq_def)

lemmas eval_defs =
  Range_mk_def compare_edges_def normalize_edge_def get_discrete_step_def Let_def
  is_lower_bound_def is_inclusive_def py_lt_def py_gt_def py_le_def py_ge_def py_eq_def

subsection \<open>Ranges over the same domain infer the same step\<close>

lemma int_bound_step: "int_bound x \<Longrightarrow> x \<noteq> None \<Longrightarrow> isinstance_int x"
  by (cases x rule: int_bound.cases) auto

lemma dec_bound_step: "dec_bound x \<Longrightarrow> \<not> isinstance_int x"
  by (cases x rule: dec_bound.cases) auto

lemma same_domain_step:
  assumes "same_domain a b"
    and "lower a \<noteq> None \<or> upper a \<noteq> None"
    and "lower b \<noteq> None \<or> upper b \<noteq> None"
  shows "get_discrete_step a = get_discrete_step b"
proof -
  from assms(1) consider "int_range a" "int_range b" | "dec_range a" "dec_range b"
    by (auto simp: same_domain_def)
  then show ?thesis
  proof cases
    case 1
    have "isinstance_int (lower a) \<or> isinstance_int (upper a)"
      using 1(1) assms(2) int_bound_step by (auto simp: int_range_def)
    moreover have "isinstance_int (lower b) \<or> isinstance_int (upper b)"
      using 1(2) assms(3) int_bound_step by (auto simp: int_range_def)
    ultimately show ?thesis by (simp add: get_discrete_step_def)
  next
    case 2
    then show ?thesis
      by (simp add: get_discrete_step_def dec_range_def dec_bound_step)
  qed
qed

lemma edge_of_simps: "edge_of r (lower r)" "edge_of r (upper r)"
  by (simp_all add: edge_of_def)

lemma edges_step:
  assumes "same_domain a b"
    and "edge_of a v1 \<and> edge_of b v2 \<or> edge_of b v1 \<and> edge_of a v2"
    and "v1 \<noteq> None" and "v2 \<noteq> None"
  shows "get_discrete_step b = get_discrete_step a"
proof -
  have "lower a \<noteq> None \<or> upper a \<noteq> None" "lower b \<noteq> None \<or> upper b \<noteq> None"
    using assms(2,3,4) unfolding edge_of_def by metis+
  then show ?thesis
    using same_domain_step [OF assms(1)] by simp
qed

lemma compare_edges_self:
  assumes "same_domain a b"
    and "edge_of a v1 \<and> edge_of b v2 \<or> edge_of b v1 \<and> edge_of a v2"
  shows "compare_edges b v1 b1 v2 b2 ov = compare_edges a v1 b1 v2 b2 ov"
  by (rule compare_edges_cong_step) (rule edges_step [OF assms])

lemma upper_edge_adjacent_to_lower_self:
  assumes "same_domain a b"
    and "edge_of a v1 \<and> edge_of b v2 \<or> edge_of b v1 \<and> edge_of a v2"
    and "\<not> is_lower_bound b1" and "is_lower_bound b2"
  shows "upper_edge_adjacent_to_lower b v1 b1 v2 b2 = upper_edge_adjacent_to_lower a v1 b1 v2 b2"
proof (cases "v1 = None \<or> v2 = None")
  case True
  then have "compare_edges a v1 b1 v2 b2 True = 1" "compare_edges b v1 b1 v2 b2 True = 1"
    using assms(3,4) compare_edges_upper_lower_None by blast+
  then show ?thesis
    by (simp add: upper_edge_adjacent_to_lower_def)
next
  case False
  then have s: "get_discrete_step b = get_discrete_step a"
    using edges_step [OF assms(1,2)] by simp
  show ?thesis
    by (simp only: upper_edge_adjacent_to_lower_def s compare_edges_self [OF assms(1,2)])
qed

section \<open>The claims\<close>

text \<open>
  C3. The fallback at the end of \<open>difference\<close> (\<open>assert False\<close>) is unreachable: for every
  pair of ranges, \<open>difference\<close> either raises the \<open>ValueError\<close> of the strictly inner
  range or returns a range through one of the cases before the fallback.
\<close>

theorem difference_fallback_unreachable:
  "difference a b \<noteq> Inl AssertionError \<and>
   (difference a b = Inl ValueError \<or> (\<exists>r. difference a b = Inr r))"
  unfolding difference_def Let_def
  by auto

text \<open>
  C10. A non-empty range with no lower and no upper bound contains every scalar,
  whatever its bounds string.
\<close>

theorem unbounded_contains_every_value:
  "contains (Range_mk None None b False) (Value v) = True"
  by (simp add: Range_mk_def contains_value_def)

text \<open>
  C8, as the claim states it, fails: the empty range does not contain a non-empty
  sub-range, here \<open>Range(1, 2)\<close>.
\<close>

theorem empty_contains_counterexample:
  "\<not> contains empty_range
        (SubRange (Range_mk (Some (PyInt 1)) (Some (PyInt 2)) (CHR ''['', CHR '')'') False))"
  by (simp add: empty_range_def Range_mk_def contained_by_def)

text \<open>
  C8, amended. For \<open>e = Range(None, None, empty=True)\<close>: \<open>e.contains(x)\<close> is false for
  every scalar \<open>x\<close>; \<open>e.contains(r)\<close> is true exactly when the range \<open>r\<close> is itself
  empty; \<open>e.overlaps(r)\<close> and \<open>e.adjacent_to(r)\<close> are false for every range \<open>r\<close>.
\<close>

theorem empty_range_laws:
  "contains empty_range (Value x) = False \<and>
   contains empty_range (SubRange r) = empty_flag r \<and>
   overlaps empty_range r = False \<and>
   adjacent_to empty_range r = Inr False"
  by (simp add: empty_range_def Range_mk_def contains_value_def contained_by_def
      overlaps_def adjacent_to_def)

text \<open>
  C7, as the claim states it, fails: with \<open>r = Range(1, 2, empty=True)\<close> and
  \<open>e = Range(None, None, empty=True)\<close>, \<open>r.union(e)\<close> returns \<open>e\<close>, which is not \<open>== r\<close>.
\<close>

theorem union_empty_counterexample:
  "\<not> returns_eq
        (union_range (Range_mk (Some (PyInt 1)) (Some (PyInt 2)) (CHR ''['', CHR '')'') True)
           empty_range)
        (Range_mk (Some (PyInt 1)) (Some (PyInt 2)) (CHR ''['', CHR '')'') True)"
  by (simp add: returns_eq_def union_range_def empty_range_def Range_mk_def range_eq_def
      opt_eq_def)

text \<open>
  C7, amended. For every range \<open>r\<close> and every empty range \<open>e\<close>: \<open>e.union(r) == r\<close>,
  \<open>r.difference(e) == r\<close> and \<open>e.difference(r) == e\<close>; \<open>r.union(e) == r\<close> when \<open>r\<close> is
  not empty, and when \<open>r\<close> is empty \<open>r.union(e)\<close> returns \<open>e\<close>; and every non-empty
  \<open>r\<close> contains itself.
\<close>

theorem empty_identity_laws:
  "empty_flag e \<Longrightarrow>
     returns_eq (union_range e r) r \<and>
     returns_eq (difference r e) r \<and>
     returns_eq (difference e r) e \<and>
     (\<not> empty_flag r \<longrightarrow> returns_eq (union_range r e) r) \<and>
     (empty_flag r \<longrightarrow> union_range r e = Inr e) \<and>
     (\<not> empty_flag r \<longrightarrow> contains r (SubRange r))"
  by (simp add: returns_eq_def union_range_def difference_def range_eq_refl contained_by_refl)

theorem empty_identity_laws_witness:
  "empty_flag empty_range \<and>
   returns_eq (union_range empty_range
      (Range_mk (Some (PyInt 1)) (Some (PyInt 10)) (CHR ''['', CHR '')'') False))
      (Range_mk (Some (PyInt 1)) (Some (PyInt 10)) (CHR ''['', CHR '')'') False) \<and>
   returns_eq (union_range
      (Range_mk (Some (PyInt 1)) (Some (PyInt 10)) (CHR ''['', CHR '')'') False) empty_range)
      (Range_mk (Some (PyInt 1)) (Some (PyInt 10)) (CHR ''['', CHR '')'') False) \<and>
   contains (Range_mk (Some (PyInt 1)) (Some (PyInt 10)) (CHR ''['', CHR '')'') False)
      (SubRange (Range_mk (Some (PyInt 1)) (Some (PyInt 10)) (CHR ''['', CHR '')'') False))"
  using empty_identity_laws [of empty_range
      "Range_mk (Some (PyInt 1)) (Some (PyInt 10)) (CHR ''['', CHR '')'') False"]
  by (simp add: empty_range_def Range_mk_def)

text \<open>
  C9. \<open>str(r)\<close> is \<open>empty\<close> for every range with \<open>empty=True\<close>; otherwise it is the lower
  bound character, the lower value (nothing for \<open>None\<close>), a comma, the upper value
  (nothing for \<open>None\<close>) and the upper bound character. \<open>Range(10, 50, bounds="[)")\<close> gives
  \<open>[10,50)\<close>.
\<close>

theorem stringify_canonical:
  "(empty_flag r \<longrightarrow> stringify fmt r = ''empty'') \<and>
   (\<not> empty_flag r \<longrightarrow>
      stringify fmt r =
        [fst (bounds r)] @ opt_str fmt (lower r) @ '','' @ opt_str fmt (upper r) @ [snd (bounds r)]) \<and>
   opt_str fmt None = [] \<and>
   opt_str fmt (Some (PyInt n)) = str_int n \<and>
   stringify fmt (Range_mk (Some (PyInt 10)) (Some (PyInt 50)) (CHR ''['', CHR '')'') False)
     = ''[10,50)''"
  by (simp add: stringify_def opt_str_def Range_mk_def str_int_def str_nat.simps digit_char_def)

theorem stringify_canonical_witness:
  "stringify (\<lambda>q. [])
     (Range_mk (Some (PyInt 1)) (Some (PyInt 2)) (CHR ''('', CHR '']'') True) = ''empty'' \<and>
   stringify (\<lambda>q. [])
     (Range_mk None (Some (PyInt 5)) (CHR ''['', CHR '')'') False) = ''[,5)'' \<and>
   stringify (\<lambda>q. [])
     (Range_mk (Some (PyInt (- 12))) None (CHR ''('', CHR '')'') False) = ''(-12,)''"
  using stringify_canonical
      [of "Range_mk (Some (PyInt 1)) (Some (PyInt 2)) (CHR ''('', CHR '']'') True" "\<lambda>q. []" 0]
    stringify_canonical
      [of "Range_mk None (Some (PyInt 5)) (CHR ''['', CHR '')'') False" "\<lambda>q. []" 5]
    stringify_canonical
      [of "Range_mk (Some (PyInt (- 12))) None (CHR ''('', CHR '')'') False" "\<lambda>q. []" "- 12"]
  by (simp add: Range_mk_def str_int_def str_nat.simps digit_char_def)



text \<open>
  C6. When the range is discrete (one of its bounds is an \<open>int\<close>), \<open>_compare_edges\<close> on
  integer edges compares the values after moving an exclusive lower edge and an
  inclusive upper edge one step up: the edge \<open>(n\<close> equals the edge \<open>[n+1\<close>, the edge
  \<open>n]\<close> equals the edge \<open>n+1)\<close>, and the comparison by values is the sign of the
  difference of the normalised values. \<open>Range(0, 5, bounds="(]")\<close> and
  \<open>Range(1, 6, bounds="[)")\<close> contain the same integers.
\<close>

theorem discrete_normalization:
  assumes "isinstance_int (lower self) \<or> isinstance_int (upper self)"
  shows "compare_edges self (Some (PyInt n)) CHR ''('' (Some (PyInt (n + 1))) CHR ''['' ov = 0 \<and>
         compare_edges self (Some (PyInt n)) CHR '']'' (Some (PyInt (n + 1))) CHR '')'' ov = 0 \<and>
         compare_edges self (Some (PyInt x)) b1 (Some (PyInt y)) b2 True
           = sgn (spec_normalized x b1 - spec_normalized y b2) \<and>
         contains (Range_mk (Some (PyInt 0)) (Some (PyInt 5)) (CHR ''('', CHR '']'') False)
             (Value (PyInt v))
           = contains (Range_mk (Some (PyInt 1)) (Some (PyInt 6)) (CHR ''['', CHR '')'') False)
               (Value (PyInt v))"
proof -
  have s: "get_discrete_step self = Some 1"
    using assms by (simp add: get_discrete_step_def)
  have 1: "compare_edges self (Some (PyInt n)) CHR ''('' (Some (PyInt (n + 1))) CHR ''['' ov = 0"
    by (simp add: compare_edges_def s normalize_edge_def Let_def is_lower_bound_def
        is_inclusive_def py_lt_def py_gt_def py_eq_def)
  have 2: "compare_edges self (Some (PyInt n)) CHR '']'' (Some (PyInt (n + 1))) CHR '')'' ov = 0"
    by (simp add: compare_edges_def s normalize_edge_def Let_def is_lower_bound_def
        is_inclusive_def py_lt_def py_gt_def py_eq_def)
  have 3: "compare_edges self (Some (PyInt x)) b1 (Some (PyInt y)) b2 True
           = sgn (spec_normalized x b1 - spec_normalized y b2)"
    by (auto simp: compare_edges_def s normalize_edge_def Let_def is_lower_bound_def
        is_inclusive_def py_int_simps spec_normalized_def sgn_if)
  have 4: "contains (Range_mk (Some (PyInt 0)) (Some (PyInt 5)) (CHR ''('', CHR '']'') False)
             (Value (PyInt v))
           = contains (Range_mk (Some (PyInt 1)) (Some (PyInt 6)) (CHR ''['', CHR '')'') False)
               (Value (PyInt v))"
    by (auto simp: Range_mk_def contains_value_def py_lt_def py_gt_def py_le_def py_ge_def)
  show ?thesis using 1 2 3 4 by blast
qed

theorem discrete_normalization_witness:
  "isinstance_int (lower (Range_mk (Some (PyInt 0)) (Some (PyInt 5)) (CHR ''('', CHR '']'') False)) \<and>
   compare_edges (Range_mk (Some (PyInt 0)) (Some (PyInt 5)) (CHR ''('', CHR '']'') False)
     (Some (PyInt 0)) CHR ''('' (Some (PyInt 1)) CHR ''['' False = 0 \<and>
   compare_edges (Range_mk (Some (PyInt 0)) (Some (PyInt 5)) (CHR ''('', CHR '']'') False)
     (Some (PyInt 5)) CHR '']'' (Some (PyInt 6)) CHR '')'' False = 0 \<and>
   contains (Range_mk (Some (PyInt 0)) (Some (PyInt 5)) (CHR ''('', CHR '']'') False)
       (Value (PyInt 1))
     = contains (Range_mk (Some (PyInt 1)) (Some (PyInt 6)) (CHR ''['', CHR '')'') False)
         (Value (PyInt 1))"
proof -
  let ?r = "Range_mk (Some (PyInt 0)) (Some (PyInt 5)) (CHR ''('', CHR '']'') False"
  have h: "isinstance_int (lower ?r) \<or> isinstance_int (upper ?r)"
    by (simp add: Range_mk_def)
  have h1: "isinstance_int (lower ?r)"
    by (simp add: Range_mk_def)
  show ?thesis
    using discrete_normalization [OF h, of 0 False 0 "CHR ''(''" 0 "CHR ''(''" 1]
      discrete_normalization [OF h, of 5 False 0 "CHR ''(''" 0 "CHR ''(''" 1] h1
    by simp
qed

text \<open>
  C1. The code does not meet the claim. \<open>Range(5, 20).difference(Range(1, 10))\<close> is the
  right-trim case; the result takes its lower marker from
  \<open>"(" if oupper_b == "]" else "("\<close>, which is \<open>(\<close> on both sides, so the code returns
  \<open>Range(10, 20, bounds="()")\<close>. That range does not contain 10, which \<open>Range(5, 20)\<close>
  contains and \<open>Range(1, 10)\<close> does not.
\<close>

theorem difference_right_trim_excludes_edge:
  "difference (Range_mk (Some (PyInt 5)) (Some (PyInt 20)) (CHR ''['', CHR '')'') False)
              (Range_mk (Some (PyInt 1)) (Some (PyInt 10)) (CHR ''['', CHR '')'') False)
     = Inr (Range_mk (Some (PyInt 10)) (Some (PyInt 20)) (CHR ''('', CHR '')'') False) \<and>
   contains (Range_mk (Some (PyInt 5)) (Some (PyInt 20)) (CHR ''['', CHR '')'') False)
     (Value (PyInt 10)) \<and>
   \<not> contains (Range_mk (Some (PyInt 1)) (Some (PyInt 10)) (CHR ''['', CHR '')'') False)
     (Value (PyInt 10)) \<and>
   \<not> contains (Range_mk (Some (PyInt 10)) (Some (PyInt 20)) (CHR ''('', CHR '')'') False)
     (Value (PyInt 10))"
  by (simp add: difference_def contains_value_def eval_defs)

text \<open>
  The left-trim case loses a point as well on a continuous domain: for decimals,
  \<open>Range(5, 10, bounds="[]").difference(Range(5, 20, bounds="()"))\<close> compares the edge
  \<open>[5\<close> with the edge \<open>5]\<close>, finds them equal and returns the empty range, although 5
  is in the first range and not in the second.
\<close>

lemma difference_left_trim_collapse_decimal:
  "difference (Range_mk (Some (PyDec 5)) (Some (PyDec 10)) (CHR ''['', CHR '']'') False)
              (Range_mk (Some (PyDec 5)) (Some (PyDec 20)) (CHR ''('', CHR '')'') False)
     = Inr empty_range \<and>
   contains (Range_mk (Some (PyDec 5)) (Some (PyDec 10)) (CHR ''['', CHR '']'') False)
     (Value (PyDec 5)) \<and>
   \<not> contains (Range_mk (Some (PyDec 5)) (Some (PyDec 20)) (CHR ''('', CHR '')'') False)
     (Value (PyDec 5)) \<and>
   \<not> contains empty_range (Value (PyDec 5))"
  by (simp add: difference_def contains_value_def empty_range_def eval_defs)

text \<open>
  C5, as the claim states it, fails: the step is inferred from \<open>self\<close> alone, so a
  range with an \<open>int\<close> bound and a range with \<open>Decimal\<close> bounds compare their edges
  differently. \<open>Range(None, 2, bounds="()")\<close> does not overlap
  \<open>Range(Decimal(1), None, bounds="()")\<close>, which overlaps it; and \<open>Range(1, 5)\<close> is
  adjacent to \<open>Range(Decimal(6), Decimal(9), bounds="()")\<close>, which is not adjacent to it.
\<close>

theorem overlaps_adjacent_mixed_counterexample:
  "overlaps (Range_mk None (Some (PyInt 2)) (CHR ''('', CHR '')'') False)
            (Range_mk (Some (PyDec 1)) None (CHR ''('', CHR '')'') False) = False \<and>
   overlaps (Range_mk (Some (PyDec 1)) None (CHR ''('', CHR '')'') False)
            (Range_mk None (Some (PyInt 2)) (CHR ''('', CHR '')'') False) = True \<and>
   adjacent_to (Range_mk (Some (PyInt 1)) (Some (PyInt 5)) (CHR ''['', CHR '')'') False)
               (Range_mk (Some (PyDec 6)) (Some (PyDec 9)) (CHR ''('', CHR '')'') False) = Inr True \<and>
   adjacent_to (Range_mk (Some (PyDec 6)) (Some (PyDec 9)) (CHR ''('', CHR '')'') False)
               (Range_mk (Some (PyInt 1)) (Some (PyInt 5)) (CHR ''['', CHR '')'') False) = Inr False"
  by (simp add: overlaps_def adjacent_to_def upper_edge_adjacent_to_lower_def opt_eq_def
      eq_minus_step_def eval_defs)

text \<open>
  C5, amended. For two ranges over the same scalar domain (the bounds of both are
  integers, or the bounds of both are decimals), with bounds among the four literals,
  \<open>overlaps\<close> and \<open>adjacent_to\<close> are symmetric: \<open>a.overlaps(b) == b.overlaps(a)\<close> and
  \<open>a.adjacent_to(b) == b.adjacent_to(a)\<close>.
\<close>

theorem overlaps_adjacent_symmetric:
  assumes "same_domain a b" and "valid_bounds a" and "valid_bounds b"
  shows "overlaps a b = overlaps b a \<and> adjacent_to a b = adjacent_to b a"
proof -
  note ce = compare_edges_self [OF assms(1)]
  have o: "overlaps a b = overlaps b a"
    unfolding overlaps_def Let_def
    by (auto simp: ce edge_of_simps)
  note ma = valid_bounds_markers [OF assms(2)] and mb = valid_bounds_markers [OF assms(3)]
  let ?x = "upper_edge_adjacent_to_lower a (upper a) (snd (bounds a)) (lower b) (fst (bounds b))"
  let ?y = "upper_edge_adjacent_to_lower a (upper b) (snd (bounds b)) (lower a) (fst (bounds a))"
  have bx: "upper_edge_adjacent_to_lower b (upper a) (snd (bounds a)) (lower b) (fst (bounds b)) = ?x"
    using upper_edge_adjacent_to_lower_self [OF assms(1)] ma mb edge_of_simps by blast
  have by': "upper_edge_adjacent_to_lower b (upper b) (snd (bounds b)) (lower a) (fst (bounds a)) = ?y"
    using upper_edge_adjacent_to_lower_self [OF assms(1)] ma mb edge_of_simps by blast
  obtain x where x: "?x = Inr x"
    using upper_edge_adjacent_to_lower_total ma mb by blast
  obtain y where y: "?y = Inr y"
    using upper_edge_adjacent_to_lower_total ma mb by blast
  have ad: "adjacent_to a b = adjacent_to b a"
    unfolding adjacent_to_def Let_def
    by (cases x; cases y) (simp_all add: bx by' x y disj_commute)
  show ?thesis using o ad by blast
qed

theorem overlaps_adjacent_symmetric_witness:
  "same_domain (Range_mk (Some (PyInt 1)) (Some (PyInt 10)) (CHR ''['', CHR '')'') False)
               (Range_mk (Some (PyInt 10)) (Some (PyInt 15)) (CHR ''['', CHR '']'') False) \<and>
   valid_bounds (Range_mk (Some (PyInt 1)) (Some (PyInt 10)) (CHR ''['', CHR '')'') False) \<and>
   valid_bounds (Range_mk (Some (PyInt 10)) (Some (PyInt 15)) (CHR ''['', CHR '']'') False) \<and>
   overlaps (Range_mk (Some (PyInt 10)) (Some (PyInt 15)) (CHR ''['', CHR '']'') False)
            (Range_mk (Some (PyInt 1)) (Some (PyInt 10)) (CHR ''['', CHR '')'') False) = False \<and>
   adjacent_to (Range_mk (Some (PyInt 10)) (Some (PyInt 15)) (CHR ''['', CHR '']'') False)
               (Range_mk (Some (PyInt 1)) (Some (PyInt 10)) (CHR ''['', CHR '')'') False) = Inr True"
proof -
  let ?a = "Range_mk (Some (PyInt 1)) (Some (PyInt 10)) (CHR ''['', CHR '')'') False"
  let ?b = "Range_mk (Some (PyInt 10)) (Some (PyInt 15)) (CHR ''['', CHR '']'') False"
  have sd: "same_domain ?a ?b"
    by (simp add: same_domain_def int_range_def Range_mk_def)
  have va: "valid_bounds ?a" and vb: "valid_bounds ?b"
    by (simp_all add: valid_bounds_def Range_mk_def)
  have o: "overlaps ?a ?b = False"
    by (simp add: overlaps_def eval_defs)
  have ad: "adjacent_to ?a ?b = Inr True"
    by (simp add: adjacent_to_def upper_edge_adjacent_to_lower_def opt_eq_def eq_minus_step_def
        eval_defs)
  show ?thesis
    using overlaps_adjacent_symmetric [OF sd va vb] sd va vb o ad by simp
qed

text \<open>
  C4, as the claim states it, fails: \<open>union\<close> picks the edges with the step of \<open>self\<close>,
  and \<open>c.contains(b)\<close> compares them with the step of \<open>b\<close>.
  \<open>Range(1, 10).union(Range(Decimal("0.5"), Decimal(10), bounds="()"))\<close> returns
  \<open>Range(1, Decimal(10), bounds="[)")\<close>, which does not contain the second operand.
\<close>

theorem union_mixed_counterexample:
  "union_range (Range_mk (Some (PyInt 1)) (Some (PyInt 10)) (CHR ''['', CHR '')'') False)
               (Range_mk (Some (PyDec (1 / 2))) (Some (PyDec 10)) (CHR ''('', CHR '')'') False)
     = Inr (Range_mk (Some (PyInt 1)) (Some (PyDec 10)) (CHR ''['', CHR '')'') False) \<and>
   \<not> contains (Range_mk (Some (PyInt 1)) (Some (PyDec 10)) (CHR ''['', CHR '')'') False)
         (SubRange (Range_mk (Some (PyDec (1 / 2))) (Some (PyDec 10)) (CHR ''('', CHR '')'') False))"
  by (simp add: union_range_def overlaps_def contained_by_def eval_defs)

text \<open>
  C4, amended. For two ranges over the same scalar domain (the bounds of both are
  integers, or the bounds of both are decimals), if \<open>c = a.union(b)\<close> returns, then
  \<open>c.contains(a)\<close> and \<open>c.contains(b)\<close> are true.
\<close>

theorem union_contains_operands:
  assumes "same_domain a b" and "union_range a b = Inr c"
  shows "contains c (SubRange a) \<and> contains c (SubRange b)"
proof (cases "empty_flag a \<or> empty_flag b")
  case True
  show ?thesis
  proof (cases "empty_flag a")
    case True
    then have "c = b" using assms(2) by (simp add: union_range_def)
    then show ?thesis using True by (simp add: contained_by_refl) (simp add: contained_by_def)
  next
    case False
    then have "empty_flag b" using \<open>empty_flag a \<or> empty_flag b\<close> by simp
    then have "c = a" using assms(2) False by (simp add: union_range_def)
    then show ?thesis using \<open>empty_flag b\<close> by (simp add: contained_by_refl) (simp add: contained_by_def)
  qed
next
  case False
  define L where "L = compare_edges a (lower a) (fst (bounds a)) (lower b) (fst (bounds b)) False"
  define U where "U = compare_edges a (upper a) (snd (bounds a)) (upper b) (snd (bounds b)) False"
  have c: "c = Range_mk (if L < 0 then lower a else lower b) (if U > 0 then upper a else upper b)
                 (if L < 0 then fst (bounds a) else fst (bounds b),
                  if U > 0 then snd (bounds a) else snd (bounds b)) False"
    using assms(2) False
    by (auto simp: union_range_def Let_def L_def U_def split: sum.splits bool.splits if_splits)
  have "compare_edges b (lower b) (fst (bounds b)) (lower a) (fst (bounds a)) False
          = compare_edges a (lower b) (fst (bounds b)) (lower a) (fst (bounds a)) False"
    by (rule compare_edges_self [OF assms(1)]) (simp add: edge_of_simps)
  also have "\<dots> = - L"
    unfolding L_def by (rule compare_edges_antisym)
  finally have bL:
    "compare_edges b (lower b) (fst (bounds b)) (lower a) (fst (bounds a)) False = - L" .
  have "compare_edges b (upper b) (snd (bounds b)) (upper a) (snd (bounds a)) False
          = compare_edges a (upper b) (snd (bounds b)) (upper a) (snd (bounds a)) False"
    by (rule compare_edges_self [OF assms(1)]) (simp add: edge_of_simps)
  also have "\<dots> = - U"
    unfolding U_def by (rule compare_edges_antisym)
  finally have bU:
    "compare_edges b (upper b) (snd (bounds b)) (upper a) (snd (bounds a)) False = - U" .
  have ca: "contained_by a c"
    using False by (simp add: c Range_mk_def contained_by_def compare_edges_refl L_def [symmetric] U_def [symmetric])
  have cb: "contained_by b c"
    using False by (simp add: c Range_mk_def contained_by_def compare_edges_refl bL bU)
  show ?thesis using ca cb by simp
qed

theorem union_contains_operands_witness:
  "same_domain (Range_mk (Some (PyInt 1)) (Some (PyInt 10)) (CHR ''['', CHR '')'') False)
               (Range_mk (Some (PyInt 5)) (Some (PyInt 15)) (CHR ''['', CHR '')'') False) \<and>
   union_range (Range_mk (Some (PyInt 1)) (Some (PyInt 10)) (CHR ''['', CHR '')'') False)
               (Range_mk (Some (PyInt 5)) (Some (PyInt 15)) (CHR ''['', CHR '')'') False)
     = Inr (Range_mk (Some (PyInt 1)) (Some (PyInt 15)) (CHR ''['', CHR '')'') False) \<and>
   contains (Range_mk (Some (PyInt 1)) (Some (PyInt 15)) (CHR ''['', CHR '')'') False)
     (SubRange (Range_mk (Some (PyInt 1)) (Some (PyInt 10)) (CHR ''['', CHR '')'') False)) \<and>
   contains (Range_mk (Some (PyInt 1)) (Some (PyInt 15)) (CHR ''['', CHR '')'') False)
     (SubRange (Range_mk (Some (PyInt 5)) (Some (PyInt 15)) (CHR ''['', CHR '')'') False))"
proof -
  let ?a = "Range_mk (Some (PyInt 1)) (Some (PyInt 10)) (CHR ''['', CHR '')'') False"
  let ?b = "Range_mk (Some (PyInt 5)) (Some (PyInt 15)) (CHR ''['', CHR '')'') False"
  let ?c = "Range_mk (Some (PyInt 1)) (Some (PyInt 15)) (CHR ''['', CHR '')'') False"
  have sd: "same_domain ?a ?b"
    by (simp add: same_domain_def int_range_def Range_mk_def)
  have u: "union_range ?a ?b = Inr ?c"
    by (simp add: union_range_def overlaps_def eval_defs)
  show ?thesis
    using union_contains_operands [OF sd u] sd u by simp
qed

end
